theory Spec2Isabelle
  imports Main "HOL-Library.Word"
begin

unbundle bit_operations_syntax

section \<open>StarFive DWMAC platform driver (dwmac-starfive.c)\<close>

text \<open>
  The driver is a sequence of calls into the kernel (clock framework, device tree,
  syscon register map, the stmmac core). The embedding keeps that shape: every function
  of the file is a function on an explicit kernel state that records the calls made, in
  order, and the contents of the syscon registers. What the kernel answers to a call is
  read from a \<open>host\<close> record, so that every theorem holds for every answer.
\<close>

subsection \<open>Types and constants\<close>

type_synonym u32 = "32 word"      \<comment> \<open>unsigned int\<close>
type_synonym ulong = "64 word"    \<comment> \<open>unsigned long (64-bit kernel)\<close>

text \<open>Kernel objects are known by their address; 0 is the NULL pointer.\<close>

type_synonym device = nat
type_synonym clk = nat
type_synonym device_node = nat
type_synonym regmap = nat

definition MACPHYC_PHY_INFT_RMII :: u32 where
  "MACPHYC_PHY_INFT_RMII = 0x4"

definition MACPHYC_PHY_INFT_RGMII :: u32 where
  "MACPHYC_PHY_INFT_RGMII = 0x1"

text \<open>
  The link speeds of linux/ethtool.h and the error numbers of errno-base.h, which the
  file uses by name.
\<close>

definition SPEED_10 :: u32 where "SPEED_10 = 10"
definition SPEED_100 :: u32 where "SPEED_100 = 100"
definition SPEED_1000 :: u32 where "SPEED_1000 = 1000"

definition ENOMEM :: int where "ENOMEM = 12"
definition EINVAL :: int where "EINVAL = 22"

text \<open>
  \<open>phy_interface_t\<close> is the enumeration of linux/phy.h. The driver names three of its
  enumerators; every other enumerator is \<open>PHY_INTERFACE_MODE_OTHER k\<close>, with \<open>k\<close>
  its number, and is distinct from the three named ones.
\<close>

datatype phy_interface_t =
    PHY_INTERFACE_MODE_RMII
  | PHY_INTERFACE_MODE_RGMII
  | PHY_INTERFACE_MODE_RGMII_ID
  | PHY_INTERFACE_MODE_OTHER nat

record starfive_dwmac =
  dev :: device
  clk_tx :: clk
  clk_gtx :: clk
  tx_use_rgmii_rxin_clk :: bool

text \<open>The callbacks a platform driver may store in \<open>plat_stmmacenet_data\<close>.\<close>

datatype callback = NULL_callback | Starfive_eth_fix_mac_speed | Other_callback nat

record stmmac_dma_cfg =
  dche :: bool

text \<open>
  The fields of \<open>struct plat_stmmacenet_data\<close> that the driver reads or writes.
  \<open>bsp_priv\<close> is a void pointer; the driver stores the address of its
  \<open>starfive_dwmac\<close> there and reads nothing else through it, so the field holds that
  record.
\<close>

record plat_stmmacenet_data =
  interface :: phy_interface_t
  fix_mac_speed :: callback
  init :: callback
  bsp_priv :: starfive_dwmac
  dma_cfg :: stmmac_dma_cfg

record stmmac_resources =
  mac :: nat

record platform_device =
  pdev_dev :: device    \<comment> \<open>\<open>&pdev->dev\<close>\<close>

text \<open>\<open>struct of_phandle_args\<close>: the node and the fixed array of argument cells.\<close>

record of_phandle_args =
  np :: device_node
  args :: "nat \<Rightarrow> u32"

subsection \<open>The kernel: calls, state and answers\<close>

datatype call =
    Dev_err device string
  | Dev_dbg device string
  | Dev_err_probe device int string
  | Clk_set_rate clk ulong
  | Of_parse_phandle_with_fixed_args device_node string nat nat
  | Syscon_node_to_regmap device_node
  | Of_node_put device_node
  | Regmap_update_bits regmap u32 u32 u32
  | Stmmac_get_platform_resources platform_device
  | Stmmac_probe_config_dt platform_device nat
  | Devm_kzalloc device
  | Devm_clk_get_enabled device string
  | Device_property_read_bool device string
  | Stmmac_dvr_probe device plat_stmmacenet_data stmmac_resources
  | Stmmac_remove_config_dt platform_device plat_stmmacenet_data

record kernel =
  calls :: "call list"                     \<comment> \<open>the calls made so far, oldest first\<close>
  regs :: "regmap \<Rightarrow> u32 \<Rightarrow> u32"      \<comment> \<open>register contents behind each register map\<close>

text \<open>
  What the kernel answers. A function that returns a pointer or an \<open>ERR_PTR\<close> answers
  with a sum: \<open>Inl e\<close> is \<open>ERR_PTR(e)\<close>, so \<open>IS_ERR\<close> is the test for \<open>Inl\<close> and
  \<open>PTR_ERR\<close> reads \<open>e\<close>. A function that returns an \<open>int\<close> and fills a structure
  answers with the pair. \<open>shift_by_ffs_of_zero\<close> is what the machine makes of
  \<open>mode << __ffs(0)\<close>, which C and the kernel leave undefined.
\<close>

record host =
  of_node :: "device \<Rightarrow> device_node"
  stmmac_get_platform_resources_res :: "platform_device \<Rightarrow> int \<times> stmmac_resources"
  stmmac_probe_config_dt_res :: "platform_device \<Rightarrow> nat \<Rightarrow> int + plat_stmmacenet_data"
  devm_kzalloc_res :: "device \<Rightarrow> bool"
  devm_clk_get_enabled_res :: "device \<Rightarrow> string \<Rightarrow> int + clk"
  device_property_read_bool_res :: "device \<Rightarrow> string \<Rightarrow> bool"
  of_parse_phandle_with_fixed_args_res ::
    "device_node \<Rightarrow> string \<Rightarrow> nat \<Rightarrow> nat \<Rightarrow> int \<times> of_phandle_args"
  syscon_node_to_regmap_res :: "device_node \<Rightarrow> int + regmap"
  regmap_update_bits_res :: "regmap \<Rightarrow> u32 \<Rightarrow> u32 \<Rightarrow> u32 \<Rightarrow> int"
  shift_by_ffs_of_zero :: "u32 \<Rightarrow> u32"
  clk_set_rate_res :: "clk \<Rightarrow> ulong \<Rightarrow> int"
  stmmac_dvr_probe_res :: "device \<Rightarrow> plat_stmmacenet_data \<Rightarrow> stmmac_resources \<Rightarrow> int"

definition record_call :: "call \<Rightarrow> kernel \<Rightarrow> kernel" where
  "record_call c s = s\<lparr>calls := calls s @ [c]\<rparr>"

text \<open>Logging. The format string is recorded without its arguments and newline.\<close>

definition dev_err :: "device \<Rightarrow> string \<Rightarrow> kernel \<Rightarrow> kernel" where
  "dev_err d fmt s = record_call (Dev_err d fmt) s"

definition dev_dbg :: "device \<Rightarrow> string \<Rightarrow> kernel \<Rightarrow> kernel" where
  "dev_dbg d fmt s = record_call (Dev_dbg d fmt) s"

text \<open>
  Modelled from the spec: \<open>dev_err_probe\<close> (drivers/base/core.c) is not in the
  source file. It logs the failure and hands the error code back, so that the caller
  propagates the underlying error.
\<close>

definition dev_err_probe :: "device \<Rightarrow> int \<Rightarrow> string \<Rightarrow> kernel \<Rightarrow> int \<times> kernel" where
  "dev_err_probe d err fmt s = (err, record_call (Dev_err_probe d err fmt) s)"

definition clk_set_rate :: "host \<Rightarrow> clk \<Rightarrow> ulong \<Rightarrow> kernel \<Rightarrow> int \<times> kernel" where
  "clk_set_rate h c rate s = (clk_set_rate_res h c rate, record_call (Clk_set_rate c rate) s)"

definition of_parse_phandle_with_fixed_args ::
  "host \<Rightarrow> device_node \<Rightarrow> string \<Rightarrow> nat \<Rightarrow> nat \<Rightarrow> kernel \<Rightarrow> (int \<times> of_phandle_args) \<times> kernel" where
  "of_parse_phandle_with_fixed_args h n list_name cells_count index s =
     (of_parse_phandle_with_fixed_args_res h n list_name cells_count index,
      record_call (Of_parse_phandle_with_fixed_args n list_name cells_count index) s)"

definition syscon_node_to_regmap :: "host \<Rightarrow> device_node \<Rightarrow> kernel \<Rightarrow> (int + regmap) \<times> kernel" where
  "syscon_node_to_regmap h n s =
     (syscon_node_to_regmap_res h n, record_call (Syscon_node_to_regmap n) s)"

definition of_node_put :: "device_node \<Rightarrow> kernel \<Rightarrow> kernel" where
  "of_node_put n s = record_call (Of_node_put n) s"

text \<open>
  Modelled from the spec: \<open>regmap_update_bits\<close> (linux/regmap.h) is not in the source
  file. It is the register map's read-modify-write: when the access succeeds, the bits
  of the register selected by the mask take the bits of the value, and the register
  keeps its other bits; when the access fails, the error is returned and the register
  is as before.
\<close>

definition regmap_update_bits ::
  "host \<Rightarrow> regmap \<Rightarrow> u32 \<Rightarrow> u32 \<Rightarrow> u32 \<Rightarrow> kernel \<Rightarrow> int \<times> kernel" where
  "regmap_update_bits h rm reg msk val s =
     (let ret = regmap_update_bits_res h rm reg msk val;
          s1 = record_call (Regmap_update_bits rm reg msk val) s
      in if ret \<noteq> 0 then (ret, s1)
         else (0, s1\<lparr>regs := (regs s1)(rm := (regs s1 rm)
                 (reg := (regs s1 rm reg AND NOT msk) OR (val AND msk)))\<rparr>))"

text \<open>
  Modelled from the spec: \<open>__ffs\<close> (asm/bitops.h) is not in the source file. It is the
  index of the lowest set bit of its argument. The kernel leaves \<open>__ffs(0)\<close> undefined:
  that is the result \<open>None\<close>.
\<close>

definition kernel_ffs :: "u32 \<Rightarrow> nat option" where
  "kernel_ffs w =
     (if w = 0 then None else Some (length (takeWhile (\<lambda>i. \<not> bit w i) [0..<32])))"

definition stmmac_get_platform_resources ::
  "host \<Rightarrow> platform_device \<Rightarrow> kernel \<Rightarrow> (int \<times> stmmac_resources) \<times> kernel" where
  "stmmac_get_platform_resources h pdev s =
     (stmmac_get_platform_resources_res h pdev, record_call (Stmmac_get_platform_resources pdev) s)"

definition stmmac_probe_config_dt ::
  "host \<Rightarrow> platform_device \<Rightarrow> nat \<Rightarrow> kernel \<Rightarrow> (int + plat_stmmacenet_data) \<times> kernel" where
  "stmmac_probe_config_dt h pdev m s =
     (stmmac_probe_config_dt_res h pdev m, record_call (Stmmac_probe_config_dt pdev m) s)"

definition devm_kzalloc :: "host \<Rightarrow> device \<Rightarrow> kernel \<Rightarrow> bool \<times> kernel" where
  "devm_kzalloc h d s = (devm_kzalloc_res h d, record_call (Devm_kzalloc d) s)"

definition devm_clk_get_enabled :: "host \<Rightarrow> device \<Rightarrow> string \<Rightarrow> kernel \<Rightarrow> (int + clk) \<times> kernel" where
  "devm_clk_get_enabled h d name s =
     (devm_clk_get_enabled_res h d name, record_call (Devm_clk_get_enabled d name) s)"

definition device_property_read_bool :: "host \<Rightarrow> device \<Rightarrow> string \<Rightarrow> kernel \<Rightarrow> bool \<times> kernel" where
  "device_property_read_bool h d name s =
     (device_property_read_bool_res h d name, record_call (Device_property_read_bool d name) s)"

definition stmmac_dvr_probe ::
  "host \<Rightarrow> device \<Rightarrow> plat_stmmacenet_data \<Rightarrow> stmmac_resources \<Rightarrow> kernel \<Rightarrow> int \<times> kernel" where
  "stmmac_dvr_probe h d plat_dat res s =
     (stmmac_dvr_probe_res h d plat_dat res, record_call (Stmmac_dvr_probe d plat_dat res) s)"

definition stmmac_remove_config_dt :: "platform_device \<Rightarrow> plat_stmmacenet_data \<Rightarrow> kernel \<Rightarrow> kernel" where
  "stmmac_remove_config_dt pdev plat_dat s = record_call (Stmmac_remove_config_dt pdev plat_dat) s"

subsection \<open>The driver\<close>

text \<open>
  \<open>starfive_eth_fix_mac_speed\<close>. The local \<open>rate\<close> has no initialiser: \<open>rate_uninit\<close>
  is whatever its storage holds on entry, and the default case of the switch leaves it
  there.
\<close>

definition starfive_eth_fix_mac_speed ::
  "host \<Rightarrow> starfive_dwmac \<Rightarrow> u32 \<Rightarrow> ulong \<Rightarrow> kernel \<Rightarrow> kernel" where
  "starfive_eth_fix_mac_speed h dwmac speed rate_uninit s =
     (if tx_use_rgmii_rxin_clk dwmac then s
      else
        let (rate, s1) =
              (if speed = SPEED_1000 then (125000000, s)
               else if speed = SPEED_100 then (25000000, s)
               else if speed = SPEED_10 then (2500000, s)
               else (rate_uninit, dev_err (dev dwmac) ''invalid speed %u'' s));
            (err, s2) = clk_set_rate h (clk_tx dwmac) rate s1
        in if err \<noteq> 0 then dev_err (dev dwmac) ''failed to set tx rate %lu'' s2 else s2)"

text \<open>
  \<open>starfive_dwmac_set_mode\<close>. The local \<open>mode\<close> has no initialiser either:
  \<open>mode_uninit\<close> is what its storage holds on entry. The default case of the switch
  logs and falls out of the switch; it has no return. The value written is
  \<open>mode << __ffs(mask)\<close>; for a mask of 0, where \<open>__ffs\<close> is undefined, it is what the
  host makes of it.
\<close>

definition starfive_dwmac_set_mode ::
  "host \<Rightarrow> plat_stmmacenet_data \<Rightarrow> u32 \<Rightarrow> kernel \<Rightarrow> int \<times> kernel" where
  "starfive_dwmac_set_mode h plat_dat mode_uninit s =
     (let dwmac = bsp_priv plat_dat;
          (mode, s1) =
            (case interface plat_dat of
               PHY_INTERFACE_MODE_RMII \<Rightarrow> (MACPHYC_PHY_INFT_RMII, s)
             | PHY_INTERFACE_MODE_RGMII \<Rightarrow> (MACPHYC_PHY_INFT_RGMII, s)
             | PHY_INTERFACE_MODE_RGMII_ID \<Rightarrow> (MACPHYC_PHY_INFT_RGMII, s)
             | PHY_INTERFACE_MODE_OTHER k \<Rightarrow>
                 (mode_uninit, dev_err (dev dwmac) ''Unsupported interface %d'' s));
          ((err, a), s2) =
            of_parse_phandle_with_fixed_args h (of_node h (dev dwmac)) ''starfive,syscon'' 2 0 s1
      in if err \<noteq> 0 then (- EINVAL, dev_dbg (dev dwmac) ''syscon reg not found'' s2)
         else
           let reg = args a 0;
               mask = args a 1;
               (rm, s3) = syscon_node_to_regmap h (np a) s2;
               s4 = of_node_put (np a) s3
           in case rm of
                Inl e \<Rightarrow> (e, s4)
              | Inr r \<Rightarrow>
                  regmap_update_bits h r reg mask
                    (case kernel_ffs mask of
                       Some n \<Rightarrow> push_bit n mode
                     | None \<Rightarrow> shift_by_ffs_of_zero h mode) s4)"

text \<open>
  \<open>starfive_dwmac_probe\<close>. \<open>devm_kzalloc\<close> hands out zeroed memory, so the fields of
  the new \<open>starfive_dwmac\<close> start as NULL and false. The value that
  \<open>starfive_dwmac_set_mode\<close> returns is dropped.
\<close>

definition starfive_dwmac_probe ::
  "host \<Rightarrow> platform_device \<Rightarrow> u32 \<Rightarrow> kernel \<Rightarrow> int \<times> kernel" where
  "starfive_dwmac_probe h pdev mode_uninit s =
     (let ((err, stmmac_res), s1) = stmmac_get_platform_resources h pdev s
      in if err \<noteq> 0 then (err, s1)
         else
           (let (p, s2) = stmmac_probe_config_dt h pdev (mac stmmac_res) s1
            in case p of
              Inl e \<Rightarrow> (e, dev_err (pdev_dev pdev) ''dt configuration failed'' s2)
            | Inr plat_dat \<Rightarrow>
               (let (allocated, s3) = devm_kzalloc h (pdev_dev pdev) s2
                in if \<not> allocated then (- ENOMEM, s3)
                   else
                     (let dwmac = \<lparr>dev = 0, clk_tx = 0, clk_gtx = 0,
                                   tx_use_rgmii_rxin_clk = False\<rparr>;
                          (tx, s4) = devm_clk_get_enabled h (pdev_dev pdev) ''tx'' s3
                      in case tx of
                        Inl e \<Rightarrow> dev_err_probe (pdev_dev pdev) e ''error getting tx clock'' s4
                      | Inr c_tx \<Rightarrow>
                         (let dwmac = dwmac\<lparr>clk_tx := c_tx\<rparr>;
                              (gtx, s5) = devm_clk_get_enabled h (pdev_dev pdev) ''gtx'' s4
                          in case gtx of
                            Inl e \<Rightarrow>
                              dev_err_probe (pdev_dev pdev) e ''error getting gtx clock'' s5
                          | Inr c_gtx \<Rightarrow>
                             (let dwmac = dwmac\<lparr>clk_gtx := c_gtx\<rparr>;
                                  (use_rxin, s6) =
                                    device_property_read_bool h (pdev_dev pdev)
                                      ''starfive,tx-use-rgmii-clk'' s5;
                                  dwmac = (if use_rxin
                                           then dwmac\<lparr>tx_use_rgmii_rxin_clk := True\<rparr>
                                           else dwmac);
                                  dwmac = dwmac\<lparr>dev := pdev_dev pdev\<rparr>;
                                  plat_dat = plat_dat\<lparr>fix_mac_speed := Starfive_eth_fix_mac_speed\<rparr>;
                                  plat_dat = plat_dat\<lparr>init := NULL_callback\<rparr>;
                                  plat_dat = plat_dat\<lparr>bsp_priv := dwmac\<rparr>;
                                  plat_dat = plat_dat\<lparr>dma_cfg := (dma_cfg plat_dat)\<lparr>dche := True\<rparr>\<rparr>;
                                  (ret, s7) = starfive_dwmac_set_mode h plat_dat mode_uninit s6;
                                  (err, s8) = stmmac_dvr_probe h (pdev_dev pdev) plat_dat stmmac_res s7
                              in if err \<noteq> 0
                                 then (err, stmmac_remove_config_dt pdev plat_dat s8)
                                 else (0, s8)))))))"

subsection \<open>Observing a run\<close>

text \<open>The calls a run added to the kernel's record, and tests for the calls of interest.\<close>

definition new_calls :: "kernel \<Rightarrow> kernel \<Rightarrow> call list" where
  "new_calls s s' = drop (length (calls s)) (calls s')"

fun is_regmap_update_bits :: "call \<Rightarrow> bool" where
  "is_regmap_update_bits (Regmap_update_bits rm reg msk val) = True"
| "is_regmap_update_bits c = False"

fun is_clk_set_rate :: "call \<Rightarrow> bool" where
  "is_clk_set_rate (Clk_set_rate c rate) = True"
| "is_clk_set_rate c = False"

fun is_stmmac_dvr_probe :: "call \<Rightarrow> bool" where
  "is_stmmac_dvr_probe (Stmmac_dvr_probe d plat_dat res) = True"
| "is_stmmac_dvr_probe c = False"

subsection \<open>A concrete board\<close>

text \<open>
  One Ethernet controller as the device tree of a JH7110 board describes it: the mode
  field is bits 18 to 20 of the syscon register at offset 0xc. The host is given the
  answer of the phandle lookup and of \<open>stmmac_dvr_probe\<close>; every other call succeeds.
\<close>

definition example_dwmac :: starfive_dwmac where
  "example_dwmac = \<lparr>dev = 1, clk_tx = 2, clk_gtx = 3, tx_use_rgmii_rxin_clk = False\<rparr>"

definition example_plat_dat :: "phy_interface_t \<Rightarrow> plat_stmmacenet_data" where
  "example_plat_dat i =
     \<lparr>interface = i, fix_mac_speed = Starfive_eth_fix_mac_speed, init = NULL_callback,
      bsp_priv = example_dwmac, dma_cfg = \<lparr>dche = True\<rparr>\<rparr>"

definition example_args :: of_phandle_args where
  "example_args = \<lparr>np = 5, args = (\<lambda>i. if i = 0 then 0xC else if i = 1 then 0x1C0000 else 0)\<rparr>"

definition example_host :: "int \<Rightarrow> int \<Rightarrow> host" where
  "example_host lookup_err dvr_err =
     \<lparr>of_node = (\<lambda>d. 4),
      stmmac_get_platform_resources_res = (\<lambda>pdev. (0, \<lparr>mac = 0\<rparr>)),
      stmmac_probe_config_dt_res = (\<lambda>pdev m. Inr
         \<lparr>interface = PHY_INTERFACE_MODE_RGMII_ID, fix_mac_speed = NULL_callback,
          init = NULL_callback,
          bsp_priv = \<lparr>dev = 0, clk_tx = 0, clk_gtx = 0, tx_use_rgmii_rxin_clk = False\<rparr>,
          dma_cfg = \<lparr>dche = False\<rparr>\<rparr>),
      devm_kzalloc_res = (\<lambda>d. True),
      devm_clk_get_enabled_res = (\<lambda>d name. Inr (if name = ''tx'' then 2 else 3)),
      device_property_read_bool_res = (\<lambda>d name. False),
      of_parse_phandle_with_fixed_args_res = (\<lambda>n name cells index. (lookup_err, example_args)),
      syscon_node_to_regmap_res = (\<lambda>n. Inr 6),
      regmap_update_bits_res = (\<lambda>rm reg msk val. 0),
      shift_by_ffs_of_zero = (\<lambda>mode. push_bit 31 mode),
      clk_set_rate_res = (\<lambda>c rate. 0),
      stmmac_dvr_probe_res = (\<lambda>d plat_dat res. dvr_err)\<rparr>"

definition example_pdev :: platform_device where
  "example_pdev = \<lparr>pdev_dev = 1\<rparr>"

definition example_kernel :: kernel where
  "example_kernel = \<lparr>calls = [], regs = (\<lambda>rm reg. 0xA5A50000)\<rparr>"

section \<open>Properties\<close>

subsection \<open>Unfolding the kernel calls and the board\<close>

lemmas host_calls =
  record_call_def dev_err_def dev_dbg_def dev_err_probe_def clk_set_rate_def
  of_parse_phandle_with_fixed_args_def syscon_node_to_regmap_def of_node_put_def
  regmap_update_bits_def stmmac_get_platform_resources_def stmmac_probe_config_dt_def
  devm_kzalloc_def devm_clk_get_enabled_def device_property_read_bool_def
  stmmac_dvr_probe_def stmmac_remove_config_dt_def

lemmas example_defs =
  example_dwmac_def example_plat_dat_def example_args_def example_host_def
  example_pdev_def example_kernel_def

subsection \<open>The lowest set bit\<close>

lemma kernel_ffs_zero: "kernel_ffs 0 = None"
  by (simp add: kernel_ffs_def)

lemma kernel_ffs_defined: "w \<noteq> 0 \<Longrightarrow> \<exists>n. kernel_ffs w = Some n"
  by (simp add: kernel_ffs_def)

lemma kernel_ffs_lt:
  assumes "kernel_ffs w = Some n"
  shows "n < 32"
proof -
  from assms have nz: "w \<noteq> 0"
    and n: "n = length (takeWhile (\<lambda>i. \<not> bit w i) [0..<32])"
    by (auto simp add: kernel_ffs_def split: if_splits)
  from nz obtain i where i: "bit w i" by (auto simp: bit_eq_iff)
  then have i32: "i < 32" using bit_imp_le_length [of w i] by simp
  let ?P = "\<lambda>i. \<not> bit w i"
  have le: "length (takeWhile ?P [0..<32]) \<le> 32"
    using length_takeWhile_le [of ?P "[0..<32]"] by simp
  have "length (takeWhile ?P [0..<32]) \<noteq> 32"
  proof
    assume e: "length (takeWhile ?P [0..<32]) = 32"
    have "takeWhile ?P [0..<32] = take (length (takeWhile ?P [0..<32])) [0..<32]"
      by (rule takeWhile_eq_take)
    with e have "takeWhile ?P [0..<32] = [0..<32]" by simp
    then have "\<forall>j\<in>set [0..<32]. ?P j" by (rule takeWhile_eq_all_conv [THEN iffD1])
    with i i32 show False by simp
  qed
  with le n show ?thesis by simp
qed

lemma kernel_ffs_bit:
  assumes "kernel_ffs w = Some n"
  shows "bit w n"
proof -
  from assms have n: "n = length (takeWhile (\<lambda>i. \<not> bit w i) [0..<32])"
    by (auto simp add: kernel_ffs_def split: if_splits)
  with kernel_ffs_lt [OF assms] nth_length_takeWhile [of "\<lambda>i. \<not> bit w i" "[0..<32]"]
  show ?thesis by simp
qed

lemma kernel_ffs_least:
  assumes "kernel_ffs w = Some n" and a: "i < n"
  shows "\<not> bit w i"
proof -
  let ?t = "takeWhile (\<lambda>i. \<not> bit w i) [0..<32]"
  from assms have n: "n = length ?t"
    by (auto simp add: kernel_ffs_def split: if_splits)
  have l: "length ?t \<le> 32" using length_takeWhile_le [of _ "[0..<32]"] by simp
  from a n have "?t ! i \<in> set ?t" by simp
  moreover have "?t ! i = [0..<32] ! i" using a n by (simp add: takeWhile_nth)
  moreover have "[0..<32] ! i = i" using a n l by simp
  ultimately have "i \<in> set ?t" by simp
  then show ?thesis by (auto dest: set_takeWhileD)
qed

lemma kernel_ffs_example: "kernel_ffs 0x1C0000 = Some 18"
  by (simp add: kernel_ffs_def upt_rec)

subsection \<open>The speed-change callback\<close>

text \<open>
  C2. With the external-clock flag unset, each of the three supported speeds makes
  exactly one clock-rate request, on the "tx" clock: 125000000 Hz for speed 1000,
  25000000 Hz for speed 100 and 2500000 Hz for speed 10. The only other call the
  callback can make is the error message when \<open>clk_set_rate\<close> fails.
\<close>

theorem fix_mac_speed_rate_request:
  assumes "\<not> tx_use_rgmii_rxin_clk dwmac"
  shows "new_calls s (starfive_eth_fix_mac_speed h dwmac 1000 rate_uninit s) =
           Clk_set_rate (clk_tx dwmac) 125000000 #
           (if clk_set_rate_res h (clk_tx dwmac) 125000000 \<noteq> 0
            then [Dev_err (dev dwmac) ''failed to set tx rate %lu''] else []) \<and>
         new_calls s (starfive_eth_fix_mac_speed h dwmac 100 rate_uninit s) =
           Clk_set_rate (clk_tx dwmac) 25000000 #
           (if clk_set_rate_res h (clk_tx dwmac) 25000000 \<noteq> 0
            then [Dev_err (dev dwmac) ''failed to set tx rate %lu''] else []) \<and>
         new_calls s (starfive_eth_fix_mac_speed h dwmac 10 rate_uninit s) =
           Clk_set_rate (clk_tx dwmac) 2500000 #
           (if clk_set_rate_res h (clk_tx dwmac) 2500000 \<noteq> 0
            then [Dev_err (dev dwmac) ''failed to set tx rate %lu''] else [])"
  using assms
  by (simp add: starfive_eth_fix_mac_speed_def new_calls_def host_calls
      SPEED_10_def SPEED_100_def SPEED_1000_def)

theorem fix_mac_speed_rate_request_witness:
  "\<not> tx_use_rgmii_rxin_clk example_dwmac \<and>
   new_calls example_kernel (starfive_eth_fix_mac_speed (example_host 0 0) example_dwmac 1000 0 example_kernel) =
     [Clk_set_rate 2 125000000] \<and>
   new_calls example_kernel (starfive_eth_fix_mac_speed (example_host 0 0) example_dwmac 100 0 example_kernel) =
     [Clk_set_rate 2 25000000] \<and>
   new_calls example_kernel (starfive_eth_fix_mac_speed (example_host 0 0) example_dwmac 10 0 example_kernel) =
     [Clk_set_rate 2 2500000]"
proof -
  have flag: "\<not> tx_use_rgmii_rxin_clk example_dwmac"
    by (simp add: example_dwmac_def)
  from flag fix_mac_speed_rate_request [OF flag, where s = example_kernel and h = "example_host 0 0" and rate_uninit = 0]
  show ?thesis by (simp add: example_dwmac_def example_host_def)
qed

text \<open>
  C4. The claim is that an unrecognised speed is logged and no clock-rate request is
  made. The default case of the switch logs and leaves the switch, and the call of
  \<open>clk_set_rate\<close> after the switch is made all the same, with the content of the
  local \<open>rate\<close> that no case has set. At speed 2500 on the concrete board, with
  0xDEADBEEF in the storage of \<open>rate\<close>:
\<close>

theorem fix_mac_speed_invalid_speed_sets_rate:
  "starfive_eth_fix_mac_speed (example_host 0 0) example_dwmac 2500 0xDEADBEEF example_kernel =
     example_kernel\<lparr>calls := [Dev_err 1 ''invalid speed %u'', Clk_set_rate 2 0xDEADBEEF]\<rparr>"
  by (simp add: starfive_eth_fix_mac_speed_def host_calls example_defs
      SPEED_10_def SPEED_100_def SPEED_1000_def)

text \<open>
  C5. With the \<open>tx_use_rgmii_rxin_clk\<close> flag set the callback does nothing, whatever the
  speed: the kernel state it returns, calls and registers, is the one it was given.
\<close>

theorem fix_mac_speed_external_clock_noop:
  "tx_use_rgmii_rxin_clk dwmac \<Longrightarrow> starfive_eth_fix_mac_speed h dwmac speed rate_uninit s = s"
  by (simp add: starfive_eth_fix_mac_speed_def)

theorem fix_mac_speed_external_clock_noop_witness:
  "tx_use_rgmii_rxin_clk (example_dwmac\<lparr>tx_use_rgmii_rxin_clk := True\<rparr>) \<and>
   starfive_eth_fix_mac_speed (example_host 0 0) (example_dwmac\<lparr>tx_use_rgmii_rxin_clk := True\<rparr>)
     1000 0 example_kernel = example_kernel"
proof -
  have flag: "tx_use_rgmii_rxin_clk (example_dwmac\<lparr>tx_use_rgmii_rxin_clk := True\<rparr>)"
    by simp
  from flag fix_mac_speed_external_clock_noop [OF flag, where h = "example_host 0 0" and speed = 1000 and rate_uninit = 0 and s = example_kernel] show ?thesis by simp
qed

subsection \<open>The mode configuration\<close>

text \<open>What the function does once the lookup and the register map are there.\<close>

lemma set_mode_success:
  assumes "of_parse_phandle_with_fixed_args_res h (of_node h (dev (bsp_priv plat_dat)))
             ''starfive,syscon'' 2 0 = (0, a)"
      and "syscon_node_to_regmap_res h (np a) = Inr rm"
  shows "starfive_dwmac_set_mode h plat_dat mode_uninit s =
           (let dwmac = bsp_priv plat_dat;
                (mode, s1) =
                  (case interface plat_dat of
                     PHY_INTERFACE_MODE_RMII \<Rightarrow> (0x4, s)
                   | PHY_INTERFACE_MODE_RGMII \<Rightarrow> (0x1, s)
                   | PHY_INTERFACE_MODE_RGMII_ID \<Rightarrow> (0x1, s)
                   | PHY_INTERFACE_MODE_OTHER k \<Rightarrow>
                       (mode_uninit, record_call (Dev_err (dev dwmac) ''Unsupported interface %d'') s))
            in regmap_update_bits h rm (args a 0) (args a 1)
                 (case kernel_ffs (args a 1) of
                    Some n \<Rightarrow> push_bit n mode
                  | None \<Rightarrow> shift_by_ffs_of_zero h mode)
                 (s1\<lparr>calls := calls s1 @
                    [Of_parse_phandle_with_fixed_args (of_node h (dev dwmac)) ''starfive,syscon'' 2 0,
                     Syscon_node_to_regmap (np a), Of_node_put (np a)]\<rparr>))"
  using assms
  by (simp add: starfive_dwmac_set_mode_def Let_def record_call_def dev_err_def
      of_parse_phandle_with_fixed_args_def syscon_node_to_regmap_def of_node_put_def
      MACPHYC_PHY_INFT_RMII_def MACPHYC_PHY_INFT_RGMII_def
      split: phy_interface_t.splits)

text \<open>
  C1. For the interface types RMII and RGMII, when the phandle lookup and the register
  map are there and the mask of the device tree is not zero, \<open>__ffs(mask)\<close> is the
  position \<open>n\<close> of the lowest set bit of the mask, and \<open>starfive_dwmac_set_mode\<close> makes
  one \<open>regmap_update_bits\<close> call, on the register and under the mask of the device tree,
  with the value 0x4 (RMII) or 0x1 (RGMII) shifted left by \<open>n\<close>. It returns what that call
  returns. When the call succeeds, the register holds that value in the bits of the mask
  and its former content in the others, and no other register changes; when it fails, no
  register changes.
\<close>

theorem set_mode_writes_mode_code:
  assumes intf: "interface plat_dat = PHY_INTERFACE_MODE_RMII \<or>
                 interface plat_dat = PHY_INTERFACE_MODE_RGMII"
      and lookup: "of_parse_phandle_with_fixed_args_res h (of_node h (dev (bsp_priv plat_dat)))
                     ''starfive,syscon'' 2 0 = (0, a)"
      and rmap: "syscon_node_to_regmap_res h (np a) = Inr rm"
      and nz: "args a 1 \<noteq> 0"
  shows "\<exists>n. kernel_ffs (args a 1) = Some n \<and>
           bit (args a 1) n \<and> (\<forall>i < n. \<not> bit (args a 1) i) \<and>
           new_calls s (snd (starfive_dwmac_set_mode h plat_dat mode_uninit s)) =
             [Of_parse_phandle_with_fixed_args (of_node h (dev (bsp_priv plat_dat)))
                ''starfive,syscon'' 2 0,
              Syscon_node_to_regmap (np a), Of_node_put (np a),
              Regmap_update_bits rm (args a 0) (args a 1)
                (push_bit n (if interface plat_dat = PHY_INTERFACE_MODE_RMII then 0x4 else 0x1))] \<and>
           fst (starfive_dwmac_set_mode h plat_dat mode_uninit s) =
             regmap_update_bits_res h rm (args a 0) (args a 1)
               (push_bit n (if interface plat_dat = PHY_INTERFACE_MODE_RMII then 0x4 else 0x1)) \<and>
           regs (snd (starfive_dwmac_set_mode h plat_dat mode_uninit s)) =
             (if regmap_update_bits_res h rm (args a 0) (args a 1)
                   (push_bit n (if interface plat_dat = PHY_INTERFACE_MODE_RMII then 0x4 else 0x1)) = 0
              then (regs s)(rm := (regs s rm)(args a 0 :=
                     (regs s rm (args a 0) AND NOT (args a 1)) OR
                     (push_bit n (if interface plat_dat = PHY_INTERFACE_MODE_RMII then 0x4 else 0x1)
                        AND args a 1)))
              else regs s)"
proof -
  from nz obtain n where n: "kernel_ffs (args a 1) = Some n"
    using kernel_ffs_defined by blast
  have low: "bit (args a 1) n \<and> (\<forall>i < n. \<not> bit (args a 1) i)"
    using kernel_ffs_bit [OF n] kernel_ffs_least [OF n] by blast
  from n have n': "kernel_ffs (args a (Suc 0)) = Some n" by simp
  from intf have run:
    "new_calls s (snd (starfive_dwmac_set_mode h plat_dat mode_uninit s)) =
       [Of_parse_phandle_with_fixed_args (of_node h (dev (bsp_priv plat_dat)))
          ''starfive,syscon'' 2 0,
        Syscon_node_to_regmap (np a), Of_node_put (np a),
        Regmap_update_bits rm (args a 0) (args a 1)
          (push_bit n (if interface plat_dat = PHY_INTERFACE_MODE_RMII then 0x4 else 0x1))] \<and>
     fst (starfive_dwmac_set_mode h plat_dat mode_uninit s) =
       regmap_update_bits_res h rm (args a 0) (args a 1)
         (push_bit n (if interface plat_dat = PHY_INTERFACE_MODE_RMII then 0x4 else 0x1)) \<and>
     regs (snd (starfive_dwmac_set_mode h plat_dat mode_uninit s)) =
       (if regmap_update_bits_res h rm (args a 0) (args a 1)
             (push_bit n (if interface plat_dat = PHY_INTERFACE_MODE_RMII then 0x4 else 0x1)) = 0
        then (regs s)(rm := (regs s rm)(args a 0 :=
               (regs s rm (args a 0) AND NOT (args a 1)) OR
               (push_bit n (if interface plat_dat = PHY_INTERFACE_MODE_RMII then 0x4 else 0x1)
                  AND args a 1)))
        else regs s)"
    by (auto simp add: set_mode_success [OF lookup rmap] n' new_calls_def regmap_update_bits_def
        record_call_def Let_def)
  from n low run show ?thesis by blast
qed

theorem set_mode_writes_mode_code_witness:
  "args example_args 1 \<noteq> 0 \<and>
   new_calls example_kernel
     (snd (starfive_dwmac_set_mode (example_host 0 0) (example_plat_dat PHY_INTERFACE_MODE_RMII)
        0 example_kernel)) =
     [Of_parse_phandle_with_fixed_args 4 ''starfive,syscon'' 2 0,
      Syscon_node_to_regmap 5, Of_node_put 5, Regmap_update_bits 6 0xC 0x1C0000 0x100000] \<and>
   regs (snd (starfive_dwmac_set_mode (example_host 0 0) (example_plat_dat PHY_INTERFACE_MODE_RMII)
        0 example_kernel)) 6 0xC = 0xA5B10000 \<and>
   new_calls example_kernel
     (snd (starfive_dwmac_set_mode (example_host 0 0) (example_plat_dat PHY_INTERFACE_MODE_RGMII)
        0 example_kernel)) =
     [Of_parse_phandle_with_fixed_args 4 ''starfive,syscon'' 2 0,
      Syscon_node_to_regmap 5, Of_node_put 5, Regmap_update_bits 6 0xC 0x1C0000 0x40000] \<and>
   regs (snd (starfive_dwmac_set_mode (example_host 0 0) (example_plat_dat PHY_INTERFACE_MODE_RGMII)
        0 example_kernel)) 6 0xC = 0xA5A50000 \<and>
   bit (0x1C0000 :: u32) 18 \<and> \<not> bit (0x1C0000 :: u32) 17"
proof -
  let ?h = "example_host 0 0"
  have lookup: "of_parse_phandle_with_fixed_args_res ?h (of_node ?h (dev (bsp_priv (example_plat_dat i))))
                  ''starfive,syscon'' 2 0 = (0, example_args)" for i
    by (simp add: example_host_def)
  have rmap: "syscon_node_to_regmap_res ?h (np example_args) = Inr 6"
    by (simp add: example_host_def)
  have rmii: "interface (example_plat_dat PHY_INTERFACE_MODE_RMII) = PHY_INTERFACE_MODE_RMII \<or>
              interface (example_plat_dat PHY_INTERFACE_MODE_RMII) = PHY_INTERFACE_MODE_RGMII"
    by (simp add: example_plat_dat_def)
  have rgmii: "interface (example_plat_dat PHY_INTERFACE_MODE_RGMII) = PHY_INTERFACE_MODE_RMII \<or>
               interface (example_plat_dat PHY_INTERFACE_MODE_RGMII) = PHY_INTERFACE_MODE_RGMII"
    by (simp add: example_plat_dat_def)
  have nz: "args example_args 1 \<noteq> 0"
    by (simp add: example_args_def)
  have ffs: "kernel_ffs (args example_args 1) = Some 18"
    by (simp add: example_args_def kernel_ffs_example)
  from set_mode_writes_mode_code [OF rmii lookup rmap nz, where mode_uninit = 0 and s = example_kernel]
  have a: "new_calls example_kernel
     (snd (starfive_dwmac_set_mode ?h (example_plat_dat PHY_INTERFACE_MODE_RMII) 0 example_kernel)) =
     [Of_parse_phandle_with_fixed_args 4 ''starfive,syscon'' 2 0,
      Syscon_node_to_regmap 5, Of_node_put 5, Regmap_update_bits 6 0xC 0x1C0000 0x100000] \<and>
   regs (snd (starfive_dwmac_set_mode ?h (example_plat_dat PHY_INTERFACE_MODE_RMII)
        0 example_kernel)) 6 0xC = 0xA5B10000 \<and>
   bit (0x1C0000 :: u32) 18 \<and> \<not> bit (0x1C0000 :: u32) 17"
    unfolding ffs by (simp add: example_defs)
  from set_mode_writes_mode_code [OF rgmii lookup rmap nz, where mode_uninit = 0 and s = example_kernel]
  have b: "new_calls example_kernel
     (snd (starfive_dwmac_set_mode ?h (example_plat_dat PHY_INTERFACE_MODE_RGMII) 0 example_kernel)) =
     [Of_parse_phandle_with_fixed_args 4 ''starfive,syscon'' 2 0,
      Syscon_node_to_regmap 5, Of_node_put 5, Regmap_update_bits 6 0xC 0x1C0000 0x40000] \<and>
   regs (snd (starfive_dwmac_set_mode ?h (example_plat_dat PHY_INTERFACE_MODE_RGMII)
        0 example_kernel)) 6 0xC = 0xA5A50000"
    unfolding ffs by (simp add: example_defs)
  from nz a b show ?thesis by blast
qed

text \<open>
  C3. The claim is that an interface type other than the supported ones is logged and the
  function is left before the register is written. The default case of the switch logs and
  falls out of the switch: it has no return. The lookup, the register map and the
  \<open>regmap_update_bits\<close> call follow as for a supported type, with the content of the
  local \<open>mode\<close> that no case has set. For the interface type numbered 2 on the concrete
  board, with 0xDEADBEEF in the storage of \<open>mode\<close>, the mode field of the register
  goes from 1 to 7:
\<close>

theorem set_mode_unsupported_interface_writes:
  "starfive_dwmac_set_mode (example_host 0 0) (example_plat_dat (PHY_INTERFACE_MODE_OTHER 2))
     0xDEADBEEF example_kernel =
   (0, \<lparr>calls = [Dev_err 1 ''Unsupported interface %d'',
                  Of_parse_phandle_with_fixed_args 4 ''starfive,syscon'' 2 0,
                  Syscon_node_to_regmap 5, Of_node_put 5,
                  Regmap_update_bits 6 0xC 0x1C0000 0xFBBC0000],
        regs = (regs example_kernel)(6 := (regs example_kernel 6)(0xC := 0xA5BD0000))\<rparr>)"
proof -
  let ?h = "example_host 0 0"
  let ?p = "example_plat_dat (PHY_INTERFACE_MODE_OTHER 2)"
  have lookup: "of_parse_phandle_with_fixed_args_res ?h (of_node ?h (dev (bsp_priv ?p)))
                  ''starfive,syscon'' 2 0 = (0, example_args)"
    by (simp add: example_host_def)
  have rmap: "syscon_node_to_regmap_res ?h (np example_args) = Inr 6"
    by (simp add: example_host_def)
  have run: "starfive_dwmac_set_mode ?h ?p 0xDEADBEEF example_kernel =
          regmap_update_bits ?h 6 0xC 0x1C0000 (push_bit 18 0xDEADBEEF)
            (example_kernel\<lparr>calls := [Dev_err 1 ''Unsupported interface %d'',
                  Of_parse_phandle_with_fixed_args 4 ''starfive,syscon'' 2 0,
                  Syscon_node_to_regmap 5, Of_node_put 5]\<rparr>)"
    unfolding set_mode_success [OF lookup rmap]
    by (simp add: Let_def record_call_def example_defs kernel_ffs_example)
  show ?thesis
    unfolding run
    by (simp add: regmap_update_bits_def record_call_def example_defs)
qed



subsection \<open>The register write is a masked update\<close>

lemma masked_update_outside:
  "\<not> bit m n \<Longrightarrow> bit ((old AND NOT m) OR (v AND m)) n = bit (old :: u32) n"
  by (auto simp add: bit_simps dest: bit_imp_le_length)

text \<open>
  C9. Whatever the registers hold before, \<open>starfive_dwmac_set_mode\<close> leaves every bit
  outside the mask of the device tree (the second argument cell of the phandle lookup) as
  it was, in every register of every register map.
\<close>

theorem set_mode_masked_update:
  assumes "\<not> bit (args (snd (of_parse_phandle_with_fixed_args_res h
                    (of_node h (dev (bsp_priv plat_dat))) ''starfive,syscon'' 2 0)) 1) n"
  shows "bit (regs (snd (starfive_dwmac_set_mode h plat_dat mode_uninit s)) rm reg) n =
         bit (regs s rm reg) n"
  using assms
  by (cases "of_parse_phandle_with_fixed_args_res h
                    (of_node h (dev (bsp_priv plat_dat))) ''starfive,syscon'' 2 0")
     (simp add: starfive_dwmac_set_mode_def Let_def host_calls masked_update_outside
      split: phy_interface_t.splits sum.splits prod.splits)

theorem set_mode_masked_update_witness:
  "\<not> bit (0x1C0000 :: u32) 21 \<and>
   regs (snd (starfive_dwmac_set_mode (example_host 0 0) (example_plat_dat PHY_INTERFACE_MODE_RMII)
     0 example_kernel)) 6 0xC = 0xA5B10000 \<and>
   bit (0xA5B10000 :: u32) 21 = bit (0xA5A50000 :: u32) 21"
proof -
  let ?h = "example_host 0 0"
  let ?p = "example_plat_dat PHY_INTERFACE_MODE_RMII"
  have lookup: "of_parse_phandle_with_fixed_args_res ?h (of_node ?h (dev (bsp_priv ?p)))
                  ''starfive,syscon'' 2 0 = (0, example_args)"
    by (simp add: example_host_def)
  have rmap: "syscon_node_to_regmap_res ?h (np example_args) = Inr 6"
    by (simp add: example_host_def)
  have outside: "\<not> bit (args (snd (of_parse_phandle_with_fixed_args_res ?h
                    (of_node ?h (dev (bsp_priv ?p))) ''starfive,syscon'' 2 0)) 1) 21"
    by (simp add: lookup example_args_def)
  have run: "regs (snd (starfive_dwmac_set_mode ?h ?p 0 example_kernel)) 6 0xC = 0xA5B10000"
    unfolding set_mode_success [OF lookup rmap]
    by (simp add: Let_def regmap_update_bits_def record_call_def example_defs kernel_ffs_example)
  from set_mode_masked_update [OF outside, where mode_uninit = 0 and s = example_kernel
      and rm = 6 and reg = "0xC"]
  have "bit (0xA5B10000 :: u32) 21 = bit (0xA5A50000 :: u32) 21"
    unfolding run by (simp only: example_kernel_def kernel.simps)
  with run show ?thesis by simp
qed

subsection \<open>A failed phandle lookup\<close>

text \<open>What \<open>starfive_dwmac_set_mode\<close> does when the lookup fails, for every interface type.\<close>

lemma set_mode_lookup_failed:
  assumes "fst (of_parse_phandle_with_fixed_args_res h (of_node h (dev (bsp_priv plat_dat)))
             ''starfive,syscon'' 2 0) \<noteq> 0"
  shows "starfive_dwmac_set_mode h plat_dat mode_uninit s =
           (- EINVAL,
            s\<lparr>calls := calls s @
               (case interface plat_dat of
                  PHY_INTERFACE_MODE_OTHER k \<Rightarrow>
                    [Dev_err (dev (bsp_priv plat_dat)) ''Unsupported interface %d'']
                | _ \<Rightarrow> []) @
               [Of_parse_phandle_with_fixed_args (of_node h (dev (bsp_priv plat_dat)))
                  ''starfive,syscon'' 2 0,
                Dev_dbg (dev (bsp_priv plat_dat)) ''syscon reg not found'']\<rparr>)"
  using assms
  by (cases "of_parse_phandle_with_fixed_args_res h (of_node h (dev (bsp_priv plat_dat)))
             ''starfive,syscon'' 2 0")
     (simp add: starfive_dwmac_set_mode_def Let_def record_call_def dev_err_def dev_dbg_def
      of_parse_phandle_with_fixed_args_def split: phy_interface_t.splits)

lemma set_mode_lookup_failed_calls:
  assumes "fst (of_parse_phandle_with_fixed_args_res h (of_node h (dev (bsp_priv plat_dat)))
             ''starfive,syscon'' 2 0) \<noteq> 0"
  shows "filter is_regmap_update_bits
           (new_calls s (snd (starfive_dwmac_set_mode h plat_dat mode_uninit s))) = []"
    and "last (calls (snd (starfive_dwmac_set_mode h plat_dat mode_uninit s))) =
           Dev_dbg (dev (bsp_priv plat_dat)) ''syscon reg not found''"
    and "regs (snd (starfive_dwmac_set_mode h plat_dat mode_uninit s)) = regs s"
    and "filter is_stmmac_dvr_probe
           (new_calls s (snd (starfive_dwmac_set_mode h plat_dat mode_uninit s))) = []"
  by (simp_all add: set_mode_lookup_failed [OF assms] new_calls_def
      split: phy_interface_t.splits)

subsection \<open>Attach\<close>

text \<open>
  Once the resources, the configuration, the allocation and both clocks are there, attach
  is the mode configuration followed by the probe of the stmmac core.
\<close>

lemma probe_configured:
  assumes res: "stmmac_get_platform_resources_res h pdev = (0, stmmac_res)"
      and cfg: "stmmac_probe_config_dt_res h pdev (mac stmmac_res) = Inr plat0"
      and mem: "devm_kzalloc_res h (pdev_dev pdev)"
      and tx: "devm_clk_get_enabled_res h (pdev_dev pdev) ''tx'' = Inr c_tx"
      and gtx: "devm_clk_get_enabled_res h (pdev_dev pdev) ''gtx'' = Inr c_gtx"
      and plat: "plat_dat = plat0
                   \<lparr>fix_mac_speed := Starfive_eth_fix_mac_speed, init := NULL_callback,
                    bsp_priv := \<lparr>dev = pdev_dev pdev, clk_tx = c_tx, clk_gtx = c_gtx,
                       tx_use_rgmii_rxin_clk = device_property_read_bool_res h (pdev_dev pdev)
                         ''starfive,tx-use-rgmii-clk''\<rparr>,
                    dma_cfg := (dma_cfg plat0)\<lparr>dche := True\<rparr>\<rparr>"
      and s6: "s6 = s\<lparr>calls := calls s @
                   [Stmmac_get_platform_resources pdev,
                    Stmmac_probe_config_dt pdev (mac stmmac_res),
                    Devm_kzalloc (pdev_dev pdev),
                    Devm_clk_get_enabled (pdev_dev pdev) ''tx'',
                    Devm_clk_get_enabled (pdev_dev pdev) ''gtx'',
                    Device_property_read_bool (pdev_dev pdev) ''starfive,tx-use-rgmii-clk'']\<rparr>"
  shows "starfive_dwmac_probe h pdev mode_uninit s =
           (let s7 = snd (starfive_dwmac_set_mode h plat_dat mode_uninit s6);
                err = stmmac_dvr_probe_res h (pdev_dev pdev) plat_dat stmmac_res;
                s8 = record_call (Stmmac_dvr_probe (pdev_dev pdev) plat_dat stmmac_res) s7
            in if err \<noteq> 0 then (err, record_call (Stmmac_remove_config_dt pdev plat_dat) s8)
               else (0, s8))"
  using res cfg mem tx gtx unfolding plat s6
  by (simp add: starfive_dwmac_probe_def Let_def record_call_def
      stmmac_get_platform_resources_def stmmac_probe_config_dt_def devm_kzalloc_def
      devm_clk_get_enabled_def device_property_read_bool_def stmmac_dvr_probe_def
      stmmac_remove_config_dt_def split: prod.splits)

lemma probe_lookup_failed:
  assumes "fst (of_parse_phandle_with_fixed_args_res h (of_node h (pdev_dev pdev))
             ''starfive,syscon'' 2 0) \<noteq> 0"
  shows "regs (snd (starfive_dwmac_probe h pdev mode_uninit s)) = regs s \<and>
         filter is_regmap_update_bits
           (new_calls s (snd (starfive_dwmac_probe h pdev mode_uninit s))) = []"
  using assms
  by (simp add: starfive_dwmac_probe_def Let_def record_call_def new_calls_def
      stmmac_get_platform_resources_def stmmac_probe_config_dt_def devm_kzalloc_def
      devm_clk_get_enabled_def device_property_read_bool_def stmmac_dvr_probe_def
      stmmac_remove_config_dt_def dev_err_def dev_err_probe_def set_mode_lookup_failed
      split: prod.splits sum.splits phy_interface_t.splits)

lemma example_probe_setup:
  "stmmac_get_platform_resources_res (example_host lookup_err dvr_err) example_pdev =
     (0, \<lparr>mac = 0\<rparr>)"
  "stmmac_probe_config_dt_res (example_host lookup_err dvr_err) example_pdev (mac \<lparr>mac = 0\<rparr>) =
     Inr \<lparr>interface = PHY_INTERFACE_MODE_RGMII_ID, fix_mac_speed = NULL_callback,
          init = NULL_callback,
          bsp_priv = \<lparr>dev = 0, clk_tx = 0, clk_gtx = 0, tx_use_rgmii_rxin_clk = False\<rparr>,
          dma_cfg = \<lparr>dche = False\<rparr>\<rparr>"
  "devm_kzalloc_res (example_host lookup_err dvr_err) (pdev_dev example_pdev)"
  "devm_clk_get_enabled_res (example_host lookup_err dvr_err) (pdev_dev example_pdev) ''tx'' = Inr 2"
  "devm_clk_get_enabled_res (example_host lookup_err dvr_err) (pdev_dev example_pdev) ''gtx'' = Inr 3"
  "example_plat_dat PHY_INTERFACE_MODE_RGMII_ID =
     \<lparr>interface = PHY_INTERFACE_MODE_RGMII_ID, fix_mac_speed = NULL_callback,
      init = NULL_callback,
      bsp_priv = \<lparr>dev = 0, clk_tx = 0, clk_gtx = 0, tx_use_rgmii_rxin_clk = False\<rparr>,
      dma_cfg = \<lparr>dche = False\<rparr>\<rparr>
       \<lparr>fix_mac_speed := Starfive_eth_fix_mac_speed, init := NULL_callback,
        bsp_priv := \<lparr>dev = pdev_dev example_pdev, clk_tx = 2, clk_gtx = 3,
           tx_use_rgmii_rxin_clk =
             device_property_read_bool_res (example_host lookup_err dvr_err)
               (pdev_dev example_pdev) ''starfive,tx-use-rgmii-clk''\<rparr>,
        dma_cfg := (dma_cfg \<lparr>interface = PHY_INTERFACE_MODE_RGMII_ID,
           fix_mac_speed = NULL_callback, init = NULL_callback,
           bsp_priv = \<lparr>dev = 0, clk_tx = 0, clk_gtx = 0, tx_use_rgmii_rxin_clk = False\<rparr>,
           dma_cfg = \<lparr>dche = False\<rparr>\<rparr>)\<lparr>dche := True\<rparr>\<rparr>"
  by (simp_all add: example_defs)

lemma example_lookup_failed:
  "fst (of_parse_phandle_with_fixed_args_res (example_host (- 2) dvr_err)
     (of_node (example_host (- 2) dvr_err) d) ''starfive,syscon'' 2 0) \<noteq> 0"
  by (simp add: example_host_def)

text \<open>
  When the lookup fails, \<open>starfive_dwmac_set_mode\<close> returns \<open>-EINVAL\<close> (\<open>-22\<close>), its
  last call is the debug message, and no syscon register is written, neither by it nor by
  attach, which calls it.
\<close>

lemma set_mode_phandle_failure:
  "(fst (of_parse_phandle_with_fixed_args_res h (of_node h (dev (bsp_priv plat_dat)))
      ''starfive,syscon'' 2 0) \<noteq> 0 \<longrightarrow>
    fst (starfive_dwmac_set_mode h plat_dat mode_uninit s) = - 22 \<and>
    last (calls (snd (starfive_dwmac_set_mode h plat_dat mode_uninit s))) =
      Dev_dbg (dev (bsp_priv plat_dat)) ''syscon reg not found'' \<and>
    filter is_regmap_update_bits
      (new_calls s (snd (starfive_dwmac_set_mode h plat_dat mode_uninit s))) = [] \<and>
    regs (snd (starfive_dwmac_set_mode h plat_dat mode_uninit s)) = regs s) \<and>
   (fst (of_parse_phandle_with_fixed_args_res h (of_node h (pdev_dev pdev))
      ''starfive,syscon'' 2 0) \<noteq> 0 \<longrightarrow>
    filter is_regmap_update_bits
      (new_calls s (snd (starfive_dwmac_probe h pdev mode_uninit s))) = [] \<and>
    regs (snd (starfive_dwmac_probe h pdev mode_uninit s)) = regs s)"
proof (intro conjI impI)
  assume f: "fst (of_parse_phandle_with_fixed_args_res h (of_node h (dev (bsp_priv plat_dat)))
      ''starfive,syscon'' 2 0) \<noteq> 0"
  show "fst (starfive_dwmac_set_mode h plat_dat mode_uninit s) = - 22"
    by (simp add: set_mode_lookup_failed [OF f] EINVAL_def)
  show "last (calls (snd (starfive_dwmac_set_mode h plat_dat mode_uninit s))) =
      Dev_dbg (dev (bsp_priv plat_dat)) ''syscon reg not found''"
    by (rule set_mode_lookup_failed_calls(2) [OF f])
  show "filter is_regmap_update_bits
      (new_calls s (snd (starfive_dwmac_set_mode h plat_dat mode_uninit s))) = []"
    by (rule set_mode_lookup_failed_calls(1) [OF f])
  show "regs (snd (starfive_dwmac_set_mode h plat_dat mode_uninit s)) = regs s"
    by (rule set_mode_lookup_failed_calls(3) [OF f])
next
  assume f: "fst (of_parse_phandle_with_fixed_args_res h (of_node h (pdev_dev pdev))
      ''starfive,syscon'' 2 0) \<noteq> 0"
  from probe_lookup_failed [OF f]
  show "filter is_regmap_update_bits
      (new_calls s (snd (starfive_dwmac_probe h pdev mode_uninit s))) = []"
    and "regs (snd (starfive_dwmac_probe h pdev mode_uninit s)) = regs s"
    by simp_all
qed

text \<open>
  C6. The claim is that attach returns the invalid-argument error when the
  "starfive,syscon" phandle lookup fails. \<open>starfive_dwmac_set_mode\<close> does return
  \<open>-EINVAL\<close> then, after the debug message and without a register write, but
  \<open>starfive_dwmac_probe\<close> calls it as a statement and drops the value, where it returns
  every other failure it meets. On the concrete board, with the lookup answering
  \<open>-ENOENT\<close> (\<open>-2\<close>), attach goes on to \<open>stmmac_dvr_probe\<close> and returns 0:
\<close>

theorem probe_drops_phandle_failure:
  "fst (of_parse_phandle_with_fixed_args_res (example_host (- 2) 0)
     (of_node (example_host (- 2) 0) (pdev_dev example_pdev)) ''starfive,syscon'' 2 0) = - 2 \<and>
   fst (starfive_dwmac_set_mode (example_host (- 2) 0)
          (example_plat_dat PHY_INTERFACE_MODE_RGMII_ID) 0
          (example_kernel\<lparr>calls := [Stmmac_get_platform_resources example_pdev,
             Stmmac_probe_config_dt example_pdev 0, Devm_kzalloc 1,
             Devm_clk_get_enabled 1 ''tx'', Devm_clk_get_enabled 1 ''gtx'',
             Device_property_read_bool 1 ''starfive,tx-use-rgmii-clk'']\<rparr>)) = - EINVAL \<and>
   fst (starfive_dwmac_probe (example_host (- 2) 0) example_pdev 0 example_kernel) = 0 \<and>
   fst (starfive_dwmac_probe (example_host (- 2) 0) example_pdev 0 example_kernel) \<noteq> - EINVAL \<and>
   calls (snd (starfive_dwmac_probe (example_host (- 2) 0) example_pdev 0 example_kernel)) =
     [Stmmac_get_platform_resources example_pdev,
      Stmmac_probe_config_dt example_pdev 0, Devm_kzalloc 1,
      Devm_clk_get_enabled 1 ''tx'', Devm_clk_get_enabled 1 ''gtx'',
      Device_property_read_bool 1 ''starfive,tx-use-rgmii-clk'',
      Of_parse_phandle_with_fixed_args 4 ''starfive,syscon'' 2 0,
      Dev_dbg 1 ''syscon reg not found'',
      Stmmac_dvr_probe 1 (example_plat_dat PHY_INTERFACE_MODE_RGMII_ID) \<lparr>mac = 0\<rparr>]"
proof -
  let ?h = "example_host (- 2) 0"
  let ?p = "example_plat_dat PHY_INTERFACE_MODE_RGMII_ID"
  have f: "fst (of_parse_phandle_with_fixed_args_res ?h (of_node ?h (dev (bsp_priv ?p)))
     ''starfive,syscon'' 2 0) \<noteq> 0"
    by (rule example_lookup_failed)
  have lookup: "fst (of_parse_phandle_with_fixed_args_res ?h
     (of_node ?h (pdev_dev example_pdev)) ''starfive,syscon'' 2 0) = - 2"
    by (simp add: example_host_def)
  have mode: "fst (starfive_dwmac_set_mode ?h ?p 0 s) = - EINVAL" for s
    by (simp add: set_mode_lookup_failed [OF f])
  have dvr: "stmmac_dvr_probe_res ?h d p r = 0" for d p r
    by (simp add: example_host_def)
  have run: "starfive_dwmac_probe ?h example_pdev 0 example_kernel =
     (0, record_call (Stmmac_dvr_probe (pdev_dev example_pdev) ?p \<lparr>mac = 0\<rparr>)
           (snd (starfive_dwmac_set_mode ?h ?p 0
              (example_kernel\<lparr>calls := calls example_kernel @
                 [Stmmac_get_platform_resources example_pdev,
                  Stmmac_probe_config_dt example_pdev (mac \<lparr>mac = 0\<rparr>),
                  Devm_kzalloc (pdev_dev example_pdev),
                  Devm_clk_get_enabled (pdev_dev example_pdev) ''tx'',
                  Devm_clk_get_enabled (pdev_dev example_pdev) ''gtx'',
                  Device_property_read_bool (pdev_dev example_pdev)
                    ''starfive,tx-use-rgmii-clk'']\<rparr>))))"
    unfolding probe_configured [OF example_probe_setup [where lookup_err = "- 2" and dvr_err = 0] refl]
    by (simp add: Let_def dvr)
  have ret: "fst (starfive_dwmac_probe ?h example_pdev 0 example_kernel) = 0"
    unfolding run by simp
  have trace: "calls (snd (starfive_dwmac_probe ?h example_pdev 0 example_kernel)) =
     [Stmmac_get_platform_resources example_pdev,
      Stmmac_probe_config_dt example_pdev 0, Devm_kzalloc 1,
      Devm_clk_get_enabled 1 ''tx'', Devm_clk_get_enabled 1 ''gtx'',
      Device_property_read_bool 1 ''starfive,tx-use-rgmii-clk'',
      Of_parse_phandle_with_fixed_args 4 ''starfive,syscon'' 2 0,
      Dev_dbg 1 ''syscon reg not found'',
      Stmmac_dvr_probe 1 ?p \<lparr>mac = 0\<rparr>]"
    unfolding run set_mode_lookup_failed [OF f]
    by (simp add: record_call_def example_defs)
  have ne: "fst (starfive_dwmac_probe ?h example_pdev 0 example_kernel) \<noteq> - EINVAL"
    unfolding ret by (simp add: EINVAL_def)
  from lookup mode ret ne trace show ?thesis by blast
qed

text \<open>
  C7. Once attach has reached the mode configuration, it returns what
  \<open>stmmac_dvr_probe\<close> returns, and the call of \<open>stmmac_dvr_probe\<close> follows the calls of
  \<open>starfive_dwmac_set_mode\<close> directly, whatever \<open>starfive_dwmac_set_mode\<close> did and
  returned: its return value appears nowhere in the result. (The only call after
  \<open>stmmac_dvr_probe\<close> is \<open>stmmac_remove_config_dt\<close>, when \<open>stmmac_dvr_probe\<close> itself
  fails.)
\<close>

theorem probe_ignores_set_mode_result:
  assumes res: "stmmac_get_platform_resources_res h pdev = (0, stmmac_res)"
      and cfg: "stmmac_probe_config_dt_res h pdev (mac stmmac_res) = Inr plat0"
      and mem: "devm_kzalloc_res h (pdev_dev pdev)"
      and tx: "devm_clk_get_enabled_res h (pdev_dev pdev) ''tx'' = Inr c_tx"
      and gtx: "devm_clk_get_enabled_res h (pdev_dev pdev) ''gtx'' = Inr c_gtx"
      and plat: "plat_dat = plat0
                   \<lparr>fix_mac_speed := Starfive_eth_fix_mac_speed, init := NULL_callback,
                    bsp_priv := \<lparr>dev = pdev_dev pdev, clk_tx = c_tx, clk_gtx = c_gtx,
                       tx_use_rgmii_rxin_clk = device_property_read_bool_res h (pdev_dev pdev)
                         ''starfive,tx-use-rgmii-clk''\<rparr>,
                    dma_cfg := (dma_cfg plat0)\<lparr>dche := True\<rparr>\<rparr>"
      and s6: "s6 = s\<lparr>calls := calls s @
                   [Stmmac_get_platform_resources pdev,
                    Stmmac_probe_config_dt pdev (mac stmmac_res),
                    Devm_kzalloc (pdev_dev pdev),
                    Devm_clk_get_enabled (pdev_dev pdev) ''tx'',
                    Devm_clk_get_enabled (pdev_dev pdev) ''gtx'',
                    Device_property_read_bool (pdev_dev pdev) ''starfive,tx-use-rgmii-clk'']\<rparr>"
  shows "fst (starfive_dwmac_probe h pdev mode_uninit s) =
           stmmac_dvr_probe_res h (pdev_dev pdev) plat_dat stmmac_res \<and>
         calls (snd (starfive_dwmac_probe h pdev mode_uninit s)) =
           calls (snd (starfive_dwmac_set_mode h plat_dat mode_uninit s6)) @
           Stmmac_dvr_probe (pdev_dev pdev) plat_dat stmmac_res #
           (if stmmac_dvr_probe_res h (pdev_dev pdev) plat_dat stmmac_res \<noteq> 0
            then [Stmmac_remove_config_dt pdev plat_dat] else [])"
  by (simp add: probe_configured [OF res cfg mem tx gtx plat s6] Let_def record_call_def)

theorem probe_ignores_set_mode_result_witness:
  "fst (starfive_dwmac_set_mode (example_host (- 2) 0)
          (example_plat_dat PHY_INTERFACE_MODE_RGMII_ID) 0
          (example_kernel\<lparr>calls := [Stmmac_get_platform_resources example_pdev,
             Stmmac_probe_config_dt example_pdev 0, Devm_kzalloc 1,
             Devm_clk_get_enabled 1 ''tx'', Devm_clk_get_enabled 1 ''gtx'',
             Device_property_read_bool 1 ''starfive,tx-use-rgmii-clk'']\<rparr>)) = - 22 \<and>
   fst (starfive_dwmac_probe (example_host (- 2) 0) example_pdev 0 example_kernel) = 0 \<and>
   calls (snd (starfive_dwmac_probe (example_host (- 2) 0) example_pdev 0 example_kernel)) =
     [Stmmac_get_platform_resources example_pdev,
      Stmmac_probe_config_dt example_pdev 0, Devm_kzalloc 1,
      Devm_clk_get_enabled 1 ''tx'', Devm_clk_get_enabled 1 ''gtx'',
      Device_property_read_bool 1 ''starfive,tx-use-rgmii-clk'',
      Of_parse_phandle_with_fixed_args 4 ''starfive,syscon'' 2 0,
      Dev_dbg 1 ''syscon reg not found'',
      Stmmac_dvr_probe 1 (example_plat_dat PHY_INTERFACE_MODE_RGMII_ID) \<lparr>mac = 0\<rparr>]"
proof -
  let ?h = "example_host (- 2) 0"
  let ?p = "example_plat_dat PHY_INTERFACE_MODE_RGMII_ID"
  have f: "fst (of_parse_phandle_with_fixed_args_res ?h (of_node ?h (dev (bsp_priv ?p)))
     ''starfive,syscon'' 2 0) \<noteq> 0"
    by (rule example_lookup_failed)
  note inst = probe_ignores_set_mode_result [where mode_uninit = 0 and s = example_kernel,
      OF example_probe_setup [where lookup_err = "- 2" and dvr_err = 0] refl]
  have dvr: "stmmac_dvr_probe_res ?h d p r = 0" for d p r
    by (simp add: example_host_def)
  from inst show ?thesis
    unfolding dvr set_mode_lookup_failed [OF f]
    by (simp add: example_defs EINVAL_def)
qed

text \<open>
  C8. When the "tx" clock cannot be acquired, attach returns the error of the clock
  lookup right after reporting it, and \<open>stmmac_dvr_probe\<close> is not called; the same
  holds when the "tx" clock is there and the "gtx" clock cannot be acquired.
\<close>

theorem probe_clock_failure_aborts:
  assumes res: "stmmac_get_platform_resources_res h pdev = (0, stmmac_res)"
      and cfg: "stmmac_probe_config_dt_res h pdev (mac stmmac_res) = Inr plat0"
      and mem: "devm_kzalloc_res h (pdev_dev pdev)"
  shows "(devm_clk_get_enabled_res h (pdev_dev pdev) ''tx'' = Inl e \<longrightarrow>
            starfive_dwmac_probe h pdev mode_uninit s =
              (e, s\<lparr>calls := calls s @
                   [Stmmac_get_platform_resources pdev,
                    Stmmac_probe_config_dt pdev (mac stmmac_res),
                    Devm_kzalloc (pdev_dev pdev),
                    Devm_clk_get_enabled (pdev_dev pdev) ''tx'',
                    Dev_err_probe (pdev_dev pdev) e ''error getting tx clock'']\<rparr>) \<and>
            filter is_stmmac_dvr_probe
              (new_calls s (snd (starfive_dwmac_probe h pdev mode_uninit s))) = []) \<and>
         (devm_clk_get_enabled_res h (pdev_dev pdev) ''tx'' = Inr c_tx \<and>
          devm_clk_get_enabled_res h (pdev_dev pdev) ''gtx'' = Inl e \<longrightarrow>
            starfive_dwmac_probe h pdev mode_uninit s =
              (e, s\<lparr>calls := calls s @
                   [Stmmac_get_platform_resources pdev,
                    Stmmac_probe_config_dt pdev (mac stmmac_res),
                    Devm_kzalloc (pdev_dev pdev),
                    Devm_clk_get_enabled (pdev_dev pdev) ''tx'',
                    Devm_clk_get_enabled (pdev_dev pdev) ''gtx'',
                    Dev_err_probe (pdev_dev pdev) e ''error getting gtx clock'']\<rparr>) \<and>
            filter is_stmmac_dvr_probe
              (new_calls s (snd (starfive_dwmac_probe h pdev mode_uninit s))) = [])"
  using res cfg mem
  by (simp add: starfive_dwmac_probe_def Let_def record_call_def new_calls_def
      stmmac_get_platform_resources_def stmmac_probe_config_dt_def devm_kzalloc_def
      devm_clk_get_enabled_def dev_err_probe_def)

theorem probe_clock_failure_aborts_witness:
  "starfive_dwmac_probe
     ((example_host 0 0)\<lparr>devm_clk_get_enabled_res := (\<lambda>d name. Inl (- 2))\<rparr>)
     example_pdev 0 example_kernel =
     (- 2, example_kernel\<lparr>calls := [Stmmac_get_platform_resources example_pdev,
        Stmmac_probe_config_dt example_pdev 0, Devm_kzalloc 1,
        Devm_clk_get_enabled 1 ''tx'', Dev_err_probe 1 (- 2) ''error getting tx clock'']\<rparr>) \<and>
   starfive_dwmac_probe
     ((example_host 0 0)\<lparr>devm_clk_get_enabled_res :=
         (\<lambda>d name. if name = ''tx'' then Inr 2 else Inl (- 517))\<rparr>)
     example_pdev 0 example_kernel =
     (- 517, example_kernel\<lparr>calls := [Stmmac_get_platform_resources example_pdev,
        Stmmac_probe_config_dt example_pdev 0, Devm_kzalloc 1,
        Devm_clk_get_enabled 1 ''tx'', Devm_clk_get_enabled 1 ''gtx'',
        Dev_err_probe 1 (- 517) ''error getting gtx clock'']\<rparr>)"
proof -
  let ?tx = "(example_host 0 0)\<lparr>devm_clk_get_enabled_res := (\<lambda>d name. Inl (- 2))\<rparr>"
  let ?gtx = "(example_host 0 0)\<lparr>devm_clk_get_enabled_res :=
         (\<lambda>d name. if name = ''tx'' then Inr 2 else Inl (- 517))\<rparr>"
  let ?plat0 = "\<lparr>interface = PHY_INTERFACE_MODE_RGMII_ID, fix_mac_speed = NULL_callback,
          init = NULL_callback,
          bsp_priv = \<lparr>dev = 0, clk_tx = 0, clk_gtx = 0, tx_use_rgmii_rxin_clk = False\<rparr>,
          dma_cfg = \<lparr>dche = False\<rparr>\<rparr>"
  have res: "stmmac_get_platform_resources_res ?tx example_pdev = (0, \<lparr>mac = 0\<rparr>)"
            "stmmac_get_platform_resources_res ?gtx example_pdev = (0, \<lparr>mac = 0\<rparr>)"
    by (simp_all add: example_host_def)
  have cfg: "stmmac_probe_config_dt_res ?tx example_pdev (mac \<lparr>mac = 0\<rparr>) = Inr ?plat0"
            "stmmac_probe_config_dt_res ?gtx example_pdev (mac \<lparr>mac = 0\<rparr>) = Inr ?plat0"
    by (simp_all add: example_host_def)
  have mem: "devm_kzalloc_res ?tx (pdev_dev example_pdev)"
            "devm_kzalloc_res ?gtx (pdev_dev example_pdev)"
    by (simp_all add: example_host_def)
  have tx_fails: "devm_clk_get_enabled_res ?tx (pdev_dev example_pdev) ''tx'' = Inl (- 2)"
    by simp
  have gtx_fails: "devm_clk_get_enabled_res ?gtx (pdev_dev example_pdev) ''tx'' = Inr 2 \<and>
                   devm_clk_get_enabled_res ?gtx (pdev_dev example_pdev) ''gtx'' = Inl (- 517)"
    by simp
  from probe_clock_failure_aborts [where mode_uninit = 0 and s = example_kernel,
      OF res(1) cfg(1) mem(1), THEN conjunct1, rule_format, OF tx_fails, THEN conjunct1]
  have a: "starfive_dwmac_probe ?tx example_pdev 0 example_kernel =
     (- 2, example_kernel\<lparr>calls := [Stmmac_get_platform_resources example_pdev,
        Stmmac_probe_config_dt example_pdev 0, Devm_kzalloc 1,
        Devm_clk_get_enabled 1 ''tx'', Dev_err_probe 1 (- 2) ''error getting tx clock'']\<rparr>)"
    by (simp add: example_pdev_def example_kernel_def)
  from probe_clock_failure_aborts [where mode_uninit = 0 and s = example_kernel,
      OF res(2) cfg(2) mem(2), THEN conjunct2, rule_format, OF gtx_fails, THEN conjunct1]
  have b: "starfive_dwmac_probe ?gtx example_pdev 0 example_kernel =
     (- 517, example_kernel\<lparr>calls := [Stmmac_get_platform_resources example_pdev,
        Stmmac_probe_config_dt example_pdev 0, Devm_kzalloc 1,
        Devm_clk_get_enabled 1 ''tx'', Devm_clk_get_enabled 1 ''gtx'',
        Dev_err_probe 1 (- 517) ''error getting gtx clock'']\<rparr>)"
    by (simp add: example_pdev_def example_kernel_def)
  from a b show ?thesis by (rule conjI)
qed

end
